theory Spec2Isabelle
  imports Main "HOL-Library.Word"
begin

unbundle bit_operations_syntax

section \<open>Data model of the platform\<close>

text \<open>
  The platform class \<open>DingzDaHomebridgePlatform\<close> keeps two mutable tables: the accessory
  registry \<open>accessories\<close> (keyed by the UUID derived from the MAC) and the discovery
  table \<open>discovered\<close> (keyed by the MAC string decoded from a datagram). Everything else
  the methods do is a call into a collaborator (the logger, the event bus, the Homebridge
  API, the retry policy); these calls are recorded, in order, in \<open>effects\<close>. A log
  entry keeps the fixed text of the message and leaves out the values printed into it.
\<close>

datatype error =
    InvalidTypeError
  | DeviceNotImplementedError string
  | DeviceNotReachableError
  | TypeError
  | BrokenCircuitError

text \<open>
  \<open>DeviceNotImplementedError\<close> carries its message because the datagram handler reads
  \<open>e.message\<close>; the messages of the other errors are never read by the platform.
  \<open>TypeError\<close> is the JavaScript runtime error of reading a property of \<open>undefined\<close>
  or of an invalid URL; \<open>BrokenCircuitError\<close> is the failure with which an open circuit
  breaker rejects a call.
\<close>

text \<open>
  The field \<open>type\<close> of a device descriptor as it arrives in the JSON body: a number, a
  string, or absent. The descriptors \<open>DingzDeviceInfo\<close> and \<open>MyStromDeviceInfo\<close> keep the
  fields the platform reads; their \<open>type\<close>, \<open>mac\<close> and \<open>name\<close> carry a prefix, since
  \<open>DeviceInfo\<close> has fields of the same names.
\<close>

datatype js_type = TNum int | TStr string | TUndefined

record DingzDeviceInfo =
  dingz_type :: js_type
  puck_hw_model :: "string option"

record MyStromDeviceInfo =
  mystrom_mac :: string
  mystrom_type :: js_type
  mystrom_name :: "string option"

datatype hwInfo = DingzHw DingzDeviceInfo | MyStromHw MyStromDeviceInfo

datatype accessoryClass = DingzDaAccessory | MyStromSwitchAccessory | MyStromLightbulbAccessory

record DeviceInfo =
  name :: string
  address :: string
  mac :: string
  token :: "string option"
  model :: string
  hwInfo :: hwInfo
  accessoryClass :: accessoryClass

text \<open>
  An accessory handle is the object built by \<open>new DingzDaAccessory(this, accessory)\<close> (or
  one of its two siblings) around \<open>new this.api.platformAccessory(name, uuid)\<close> whose
  \<open>context.device\<close> is the device record.
\<close>

record handle =
  displayName :: string
  UUID :: string
  device :: DeviceInfo

record RemoteInfo =
  remote_address :: string
  remote_port :: nat

datatype entry_point = AddDingzDevice | AddMyStromSwitchDevice | AddMyStromLightbulbDevice

text \<open>A closure handed to \<open>retryWithBreaker.execute\<close>: the entry point and its arguments.\<close>

record registration_call =
  call_entry :: entry_point
  call_address :: string
  call_name :: string
  call_token :: "string option"

text \<open>
  \<open>eb.emit\<close> passes its arguments by position; \<open>BTN_PRESS a b c\<close> is
  \<open>emit(DingzEvent.BTN_PRESS, a, b, c)\<close>.
\<close>

datatype event = UPDATE_INFO handle | BTN_PRESS string string string | STATE_UPDATE

datatype effect =
    Debug string
  | Info string
  | Warn string
  | Construct handle
  | RegisterPlatformAccessories handle
  | Identify handle
  | Emit event
  | Execute registration_call
  | WriteHead nat
  | End
  | LogError string

record platform =
  accessories :: "string \<rightharpoonup> handle"
  discovered :: "string \<rightharpoonup> RemoteInfo"
  effects :: "effect list"

definition perform :: "effect \<Rightarrow> platform \<Rightarrow> platform" where
  "perform e st = st\<lparr>effects := effects st @ [e]\<rparr>"

record config =
  globalToken :: "string option"

section \<open>Discovery: \<open>byteToHexString\<close> and \<open>datagramMessageHandler\<close>\<close>

text \<open>\<open>DeviceTypes\<close> of \<open>util/internalTypes.ts\<close>, with the reverse mapping \<open>DeviceTypes[t]\<close>.\<close>

definition MYSTROM_SWITCH_CHV1 :: "8 word" where "MYSTROM_SWITCH_CHV1 = 101"
definition MYSTROM_BULB :: "8 word" where "MYSTROM_BULB = 102"
definition MYSTROM_BUTTON_PLUS :: "8 word" where "MYSTROM_BUTTON_PLUS = 103"
definition MYSTROM_BUTTON :: "8 word" where "MYSTROM_BUTTON = 104"
definition MYSTROM_LEDSTRIP :: "8 word" where "MYSTROM_LEDSTRIP = 105"
definition MYSTROM_SWITCH_CHV2 :: "8 word" where "MYSTROM_SWITCH_CHV2 = 106"
definition MYSTROM_SWITCH_EU :: "8 word" where "MYSTROM_SWITCH_EU = 107"
definition DINGZ :: "8 word" where "DINGZ = 108"

definition DeviceTypes_name :: "8 word \<Rightarrow> string" where
  "DeviceTypes_name t =
     (if t = MYSTROM_SWITCH_CHV1 then ''MYSTROM_SWITCH_CHV1''
      else if t = MYSTROM_BULB then ''MYSTROM_BULB''
      else if t = MYSTROM_BUTTON_PLUS then ''MYSTROM_BUTTON_PLUS''
      else if t = MYSTROM_BUTTON then ''MYSTROM_BUTTON''
      else if t = MYSTROM_LEDSTRIP then ''MYSTROM_LEDSTRIP''
      else if t = MYSTROM_SWITCH_CHV2 then ''MYSTROM_SWITCH_CHV2''
      else if t = MYSTROM_SWITCH_EU then ''MYSTROM_SWITCH_EU''
      else if t = DINGZ then ''DINGZ''
      else ''undefined'')"

text \<open>
  \<open>String.prototype.toUpperCase\<close> on the characters the platform produces (ASCII):
  the letters \<open>a\<close> to \<open>z\<close> move to \<open>A\<close> to \<open>Z\<close>, every other character stays.
\<close>

definition toUpperCase_char :: "char \<Rightarrow> char" where
  "toUpperCase_char c =
     (let n = (of_char c :: nat) in if 97 \<le> n \<and> n \<le> 122 then char_of (n - 32) else c)"

definition toUpperCase :: "string \<Rightarrow> string" where
  "toUpperCase s = map toUpperCase_char s"

text \<open>\<open>Number.prototype.toString(16)\<close> on a non-negative integer: lower-case digits, no padding.\<close>

definition hex_digit :: "nat \<Rightarrow> char" where
  "hex_digit d = (if d < 10 then char_of (48 + d) else char_of (87 + d))"

fun toString16 :: "nat \<Rightarrow> string" where
  "toString16 n = (if n < 16 then [hex_digit n] else toString16 (n div 16) @ [hex_digit (n mod 16)])"

text \<open>
  The loop of \<open>byteToHexString\<close>: \<open>hexStr\<close> is the accumulator, one step per byte.
  \<^verbatim>\<open>
    let hex = (uint8arr[i] & 0xff).toString(16);
    hex = hex.length === 1 ? '0' + hex : hex;
    hexStr += hex;
  \<close>
\<close>

definition byte_hex :: "8 word \<Rightarrow> string" where
  "byte_hex b =
     (let hex = toString16 (unat (b AND 0xff))
      in if length hex = 1 then CHR ''0'' # hex else hex)"

fun byteToHexString_loop :: "string \<Rightarrow> 8 word list \<Rightarrow> string" where
  "byteToHexString_loop hexStr [] = hexStr"
| "byteToHexString_loop hexStr (b # bs) = byteToHexString_loop (hexStr @ byte_hex b) bs"

text \<open>A \<open>Uint8Array\<close> is an object, so the guard \<open>if (!uint8arr)\<close> never fires on one.\<close>

definition byteToHexString :: "8 word list \<Rightarrow> string" where
  "byteToHexString uint8arr = toUpperCase (byteToHexString_loop [] uint8arr)"

text \<open>\<open>msg.subarray(begin, end)\<close>: the bytes from \<open>begin\<close> up to, not including, \<open>end\<close>.\<close>

definition subarray :: "'a list \<Rightarrow> nat \<Rightarrow> nat \<Rightarrow> 'a list" where
  "subarray msg b e = take (e - b) (drop b msg)"

text \<open>
  \<open>msg[6]\<close> and \<open>msg.subarray(0, 5)\<close>, which the handler reads once it knows that the
  datagram has 8 bytes.
\<close>

definition datagram_type :: "8 word list \<Rightarrow> 8 word" where
  "datagram_type msg = msg ! 6"

definition datagram_mac :: "8 word list \<Rightarrow> string" where
  "datagram_mac msg = byteToHexString (subarray msg 0 5)"

definition execute_registration ::
  "entry_point \<Rightarrow> string \<Rightarrow> string \<Rightarrow> string option \<Rightarrow> platform \<Rightarrow> platform" where
  "execute_registration ep addr nm tok st =
     perform (Execute \<lparr>call_entry = ep, call_address = addr, call_name = nm, call_token = tok\<rparr>) st"

text \<open>
  The \<open>switch (t)\<close> of the handler. Each supported type hands one registration closure to
  \<open>retryWithBreaker.execute\<close>; the two button types throw; any other code is logged.
\<close>

definition route_by_type ::
  "config \<Rightarrow> 8 word \<Rightarrow> RemoteInfo \<Rightarrow> platform \<Rightarrow> error + platform" where
  "route_by_type cfg t remoteInfo st =
     (if t = MYSTROM_BUTTON_PLUS \<or> t = MYSTROM_BUTTON then
        Inl (DeviceNotImplementedError
              (''Device discovered at '' @ remote_address remoteInfo @
               '' of unsupported type '' @ DeviceTypes_name t))
      else if t = MYSTROM_LEDSTRIP then
        Inr (execute_registration AddMyStromLightbulbDevice (remote_address remoteInfo)
              ''Auto-Discovered MyStrom LED Strip'' (globalToken cfg) st)
      else if t = MYSTROM_BULB then
        Inr (execute_registration AddMyStromLightbulbDevice (remote_address remoteInfo)
              ''Auto-Discovered MyStrom Lightbulb'' (globalToken cfg) st)
      else if t = MYSTROM_SWITCH_CHV1 \<or> t = MYSTROM_SWITCH_CHV2 \<or> t = MYSTROM_SWITCH_EU then
        Inr (execute_registration AddMyStromSwitchDevice (remote_address remoteInfo)
              ''Auto-Discovered MyStromSwitch'' (globalToken cfg) st)
      else if t = DINGZ then
        Inr (execute_registration AddDingzDevice (remote_address remoteInfo)
              ''Auto-Discovered Dingz'' (globalToken cfg) st)
      else Inr (perform (Warn ''Unknown device'') st))"

text \<open>The body of the \<open>try\<close> block: \<open>Inl\<close> is an exception thrown out of it.\<close>

definition datagramMessageHandler_try ::
  "config \<Rightarrow> 8 word list \<Rightarrow> RemoteInfo \<Rightarrow> platform \<Rightarrow> error + platform" where
  "datagramMessageHandler_try cfg msg remoteInfo st =
     (if length msg \<noteq> 8 then Inl (DeviceNotImplementedError ''Detected data can not be parsed.'')
      else
        let t = datagram_type msg; m = datagram_mac msg in
        if discovered st m \<noteq> None then
          Inr (perform (Debug ''Accessory already initialized. Stopping Discovery here.'') st)
        else
          case route_by_type cfg t remoteInfo st of
            Inl e \<Rightarrow> Inl e
          | Inr st' \<Rightarrow> Inr (st'\<lparr>discovered := (discovered st')(m \<mapsto> remoteInfo)\<rparr>))"

text \<open>
  The handler with its \<open>catch\<close>: a \<open>DeviceNotImplementedError\<close> is logged at debug level
  and swallowed, any other error is thrown again. The first component of the result is
  the exception that leaves the handler, if any.
\<close>

definition datagramMessageHandler ::
  "config \<Rightarrow> 8 word list \<Rightarrow> RemoteInfo \<Rightarrow> platform \<Rightarrow> error option \<times> platform" where
  "datagramMessageHandler cfg msg remoteInfo st =
     (case datagramMessageHandler_try cfg msg remoteInfo st of
        Inr st' \<Rightarrow> (None, st')
      | Inl (DeviceNotImplementedError message) \<Rightarrow> (None, perform (Debug message) st)
      | Inl e \<Rightarrow> (Some e, st))"

text \<open>The registration closures the handler has handed to the retry policy so far.\<close>

fun executed :: "effect list \<Rightarrow> registration_call list" where
  "executed [] = []"
| "executed (Execute c # es) = c # executed es"
| "executed (_ # es) = executed es"

text \<open>One discovery session: the handler runs once per datagram, in arrival order.\<close>

fun discovery_session ::
  "config \<Rightarrow> (8 word list \<times> RemoteInfo) list \<Rightarrow> platform \<Rightarrow> platform" where
  "discovery_session cfg [] st = st"
| "discovery_session cfg ((msg, remoteInfo) # rest) st =
     discovery_session cfg rest (snd (datagramMessageHandler cfg msg remoteInfo st))"

text \<open>The platform as its constructor leaves it: \<open>accessories = {}\<close>, \<open>discovered = new Map()\<close>.\<close>

definition new_platform :: platform where
  "new_platform = \<lparr>accessories = Map.empty, discovered = Map.empty, effects = []\<rparr>"

section \<open>Registration: \<open>fetch\<close> and the three \<open>add...Device\<close> entry points\<close>

text \<open>
  What the device answered to the HTTP request, as \<open>axios\<close> reports it: a response with
  its parsed body, or a transport failure. \<open>fetch\<close> turns the failure into \<open>undefined\<close>
  (here \<open>None\<close>) after logging it:
  \<^verbatim>\<open>.catch((e) => { this.log.error('Error:', e); })\<close>
\<close>

datatype 'a axios_result = Response 'a | Failure

definition fetch :: "'a axios_result \<Rightarrow> platform \<Rightarrow> 'a option \<times> platform" where
  "fetch r st =
     (case r of
        Response body \<Rightarrow> (Some body, st)
      | Failure \<Rightarrow> (None, perform (LogError ''Error:'') st))"

definition getDingzDeviceInfo ::
  "(string \<times> DingzDeviceInfo) list axios_result \<Rightarrow> platform \<Rightarrow>
   (string \<times> DingzDeviceInfo) list option \<times> platform" where
  "getDingzDeviceInfo r st = fetch r st"

definition getMyStromDeviceInfo ::
  "MyStromDeviceInfo axios_result \<Rightarrow> platform \<Rightarrow> MyStromDeviceInfo option \<times> platform" where
  "getMyStromDeviceInfo r st = fetch r st"

text \<open>
  How a promise settles. The callback given to \<open>.then\<close> either returns \<open>true\<close>, or
  falls off its end (\<open>undefined\<close>, here \<open>None\<close>), or throws, which rejects the promise
  that \<open>.then\<close> returned.
\<close>

datatype 'a settled = Fulfilled 'a | Rejected error

text \<open>
  The entry points test \<open>if (!success)\<close> where \<open>success\<close> is the promise returned by
  \<open>.then\<close>, not its value. A promise is an object, and every object is truthy.
\<close>

definition truthy_promise :: "'a settled \<Rightarrow> bool" where
  "truthy_promise p = True"

text \<open>
  What one call of an entry point gives: the value it returns or the error it throws
  (\<open>returned\<close>), how the promise \<open>success\<close> settles afterwards (\<open>success\<close>), and the
  platform once the promise has settled (\<open>after\<close>).
\<close>

record outcome =
  returned :: "error + bool"
  success :: "bool option settled"
  after :: platform

text \<open>
  The branch \<open>if (!this.accessories[uuid])\<close>, the same in the three entry points: a new
  accessory is made, wrapped in its handle, given to Homebridge and stored in the registry.
\<close>

definition register_new :: "string \<Rightarrow> DeviceInfo \<Rightarrow> platform \<Rightarrow> platform" where
  "register_new uuid deviceInfo st =
     (let st1 = perform (Info ''Registering new accessory:'') st;
          h = \<lparr>displayName = name deviceInfo, UUID = uuid, device = deviceInfo\<rparr>;
          st2 = perform (Construct h) st1;
          st3 = perform (RegisterPlatformAccessories h) st2
      in st3\<lparr>accessories := (accessories st3)(uuid \<mapsto> h)\<rparr>)"

text \<open>
  The record \<open>deviceInfo\<close> that \<open>addDingzDevice\<close> builds from the first entry of the
  body: \<open>model: info.puck_hw_model ?? 'DingZ'\<close>.
\<close>

definition dingz_deviceInfo ::
  "string \<Rightarrow> string \<Rightarrow> string option \<Rightarrow> string \<Rightarrow> DingzDeviceInfo \<Rightarrow> DeviceInfo" where
  "dingz_deviceInfo addr nm tok key info =
     \<lparr>name = nm, address = addr, mac = toUpperCase key, token = tok,
      model = (case puck_hw_model info of None \<Rightarrow> ''DingZ'' | Some m \<Rightarrow> m),
      hwInfo = DingzHw info, accessoryClass = DingzDaAccessory\<rparr>"

text \<open>
  The callback of \<open>addDingzDevice\<close>. The body is a mapping from MAC to descriptor, here
  the list of its entries in the order of \<open>Object.keys\<close>; \<open>keys[0]\<close> of an empty mapping
  is \<open>undefined\<close>, and reading \<open>info.type\<close> then throws a \<open>TypeError\<close>. The parameter
  \<open>generate\<close> is \<open>this.api.hap.uuid.generate\<close>.
\<close>

definition addDingzDevice_then ::
  "(string \<Rightarrow> string) \<Rightarrow> string \<Rightarrow> string \<Rightarrow> string option \<Rightarrow>
   (string \<times> DingzDeviceInfo) list option \<Rightarrow> platform \<Rightarrow> bool option settled \<times> platform" where
  "addDingzDevice_then generate addr nm tok data st =
     (let st0 = perform (Debug ''Got Device ->'') st in
      case data of
        None \<Rightarrow> (Fulfilled None, st0)
      | Some dingzDevices \<Rightarrow>
          (case dingzDevices of
             [] \<Rightarrow> (Rejected TypeError, st0)
           | (key, info) # _ \<Rightarrow>
               if dingz_type info \<noteq> TStr ''dingz'' then (Rejected InvalidTypeError, st0)
               else
                 let deviceInfo = dingz_deviceInfo addr nm tok key info;
                     uuid = generate (mac deviceInfo)
                 in (case accessories st0 uuid of
                       None \<Rightarrow> (Fulfilled (Some True), register_new uuid deviceInfo st0)
                     | Some h \<Rightarrow>
                         (Fulfilled (Some True),
                          perform (Identify h)
                            (perform (Emit (UPDATE_INFO h))
                              (perform (Warn ''Accessory already initialized'') st0))))))"

definition addDingzDevice ::
  "(string \<Rightarrow> string) \<Rightarrow> string \<Rightarrow> string option \<Rightarrow> string option \<Rightarrow>
   (string \<times> DingzDeviceInfo) list axios_result \<Rightarrow> platform \<Rightarrow> outcome" where
  "addDingzDevice generate addr name_opt tok response st =
     (let nm = (case name_opt of None \<Rightarrow> ''Unnamed DingzDa Device'' | Some n \<Rightarrow> n);
          st1 = perform (Debug ''Add configured device ->'') st;
          (data, st2) = getDingzDeviceInfo response st1;
          (p, st3) = addDingzDevice_then generate addr nm tok data st2
      in \<lparr>returned = (if \<not> truthy_promise p then Inl DeviceNotReachableError else Inr True),
          success = p, after = st3\<rparr>)"

text \<open>\<open>MYSTROM_SWITCH_TYPES[info.type]\<close>, on the types that pass the check before it.\<close>

definition MYSTROM_SWITCH_TYPES :: "js_type \<Rightarrow> string option" where
  "MYSTROM_SWITCH_TYPES t =
     (if t = TStr ''WS2'' \<or> t = TNum 106 \<or> t = TStr ''106'' then Some ''CH v2''
      else if t = TStr ''WSEU'' \<or> t = TNum 107 \<or> t = TStr ''107'' then Some ''EU''
      else None)"

text \<open>The condition under which \<open>addMyStromSwitchDevice\<close> throws \<open>InvalidTypeError\<close>.\<close>

definition switch_type_mismatch :: "js_type \<Rightarrow> bool" where
  "switch_type_mismatch t =
     (t \<noteq> TStr ''WS2'' \<and> t \<noteq> TNum 106 \<and> t \<noteq> TStr ''WSEU'' \<and> t \<noteq> TNum 107 \<and> t \<noteq> TUndefined)"

text \<open>
  The record \<open>deviceInfo\<close> of \<open>addMyStromSwitchDevice\<close>: \<open>name: info.name ?? name\<close>,
  \<open>model: MYSTROM_SWITCH_TYPES[info.type] ?? 'CH v1'\<close>.
\<close>

definition switch_deviceInfo ::
  "string \<Rightarrow> string \<Rightarrow> string option \<Rightarrow> MyStromDeviceInfo \<Rightarrow> DeviceInfo" where
  "switch_deviceInfo addr nm tok info =
     \<lparr>name = (case mystrom_name info of None \<Rightarrow> nm | Some n \<Rightarrow> n),
      address = addr, mac = toUpperCase (mystrom_mac info), token = tok,
      model = (case MYSTROM_SWITCH_TYPES (mystrom_type info) of None \<Rightarrow> ''CH v1'' | Some m \<Rightarrow> m),
      hwInfo = MyStromHw info, accessoryClass = MyStromSwitchAccessory\<rparr>"

definition addMyStromSwitchDevice_then ::
  "(string \<Rightarrow> string) \<Rightarrow> string \<Rightarrow> string \<Rightarrow> string option \<Rightarrow>
   MyStromDeviceInfo option \<Rightarrow> platform \<Rightarrow> bool option settled \<times> platform" where
  "addMyStromSwitchDevice_then generate addr nm tok data st =
     (case data of
        None \<Rightarrow> (Fulfilled None, st)
      | Some info \<Rightarrow>
          if switch_type_mismatch (mystrom_type info) then (Rejected InvalidTypeError, st)
          else
            let deviceInfo = switch_deviceInfo addr nm tok info;
                uuid = generate (mac deviceInfo)
            in (case accessories st uuid of
                  None \<Rightarrow> (Fulfilled (Some True), register_new uuid deviceInfo st)
                | Some h \<Rightarrow>
                    (Fulfilled (Some True),
                     perform (Identify h) (perform (Warn ''Accessory already initialized'') st))))"

definition addMyStromSwitchDevice ::
  "(string \<Rightarrow> string) \<Rightarrow> string \<Rightarrow> string option \<Rightarrow> string option \<Rightarrow>
   MyStromDeviceInfo axios_result \<Rightarrow> platform \<Rightarrow> outcome" where
  "addMyStromSwitchDevice generate addr name_opt tok response st =
     (let nm = (case name_opt of None \<Rightarrow> ''Unidentified myStrom Switch'' | Some n \<Rightarrow> n);
          st1 = perform (Debug ''Add configured/discovered device ->'') st;
          (data, st2) = getMyStromDeviceInfo response st1;
          (p, st3) = addMyStromSwitchDevice_then generate addr nm tok data st2
      in \<lparr>returned = (if \<not> truthy_promise p then Inl DeviceNotReachableError else Inr True),
          success = p, after = st3\<rparr>)"

text \<open>The condition under which \<open>addMyStromLightbulbDevice\<close> throws \<open>InvalidTypeError\<close>.\<close>

definition lightbulb_type_mismatch :: "js_type \<Rightarrow> bool" where
  "lightbulb_type_mismatch t = (t \<noteq> TNum 102 \<and> t \<noteq> TNum 105 \<and> t \<noteq> TStr ''WRS'')"

text \<open>The record \<open>deviceInfo\<close> of \<open>addMyStromLightbulbDevice\<close>: \<open>model: '102'\<close>.\<close>

definition lightbulb_deviceInfo ::
  "string \<Rightarrow> string \<Rightarrow> string option \<Rightarrow> MyStromDeviceInfo \<Rightarrow> DeviceInfo" where
  "lightbulb_deviceInfo addr nm tok info =
     \<lparr>name = (case mystrom_name info of None \<Rightarrow> nm | Some n \<Rightarrow> n),
      address = addr, mac = toUpperCase (mystrom_mac info), token = tok,
      model = ''102'',
      hwInfo = MyStromHw info, accessoryClass = MyStromLightbulbAccessory\<rparr>"

definition addMyStromLightbulbDevice_then ::
  "(string \<Rightarrow> string) \<Rightarrow> string \<Rightarrow> string \<Rightarrow> string option \<Rightarrow>
   MyStromDeviceInfo option \<Rightarrow> platform \<Rightarrow> bool option settled \<times> platform" where
  "addMyStromLightbulbDevice_then generate addr nm tok data st =
     (case data of
        None \<Rightarrow> (Fulfilled None, st)
      | Some info \<Rightarrow>
          if lightbulb_type_mismatch (mystrom_type info) then (Rejected InvalidTypeError, st)
          else
            let deviceInfo = lightbulb_deviceInfo addr nm tok info;
                uuid = generate (mac deviceInfo)
            in (case accessories st uuid of
                  None \<Rightarrow> (Fulfilled (Some True), register_new uuid deviceInfo st)
                | Some h \<Rightarrow>
                    (Fulfilled (Some True),
                     perform (Identify h) (perform (Warn ''Accessory already initialized'') st))))"

definition addMyStromLightbulbDevice ::
  "(string \<Rightarrow> string) \<Rightarrow> string \<Rightarrow> string option \<Rightarrow> string option \<Rightarrow>
   MyStromDeviceInfo axios_result \<Rightarrow> platform \<Rightarrow> outcome" where
  "addMyStromLightbulbDevice generate addr name_opt tok response st =
     (let nm = (case name_opt of None \<Rightarrow> ''Unidentified myStrom Lightbulb/LED'' | Some n \<Rightarrow> n);
          st1 = perform (Debug ''Add configured/discovered device ->'') st;
          (data, st2) = getMyStromDeviceInfo response st1;
          (p, st3) = addMyStromLightbulbDevice_then generate addr nm tok data st2
      in \<lparr>returned = (if \<not> truthy_promise p then Inl DeviceNotReachableError else Inr True),
          success = p, after = st3\<rparr>)"

text \<open>What a run added to the effects, and the handles and events among them.\<close>

fun constructed :: "effect list \<Rightarrow> handle list" where
  "constructed [] = []"
| "constructed (Construct h # es) = h # constructed es"
| "constructed (_ # es) = constructed es"

fun emitted :: "effect list \<Rightarrow> event list" where
  "emitted [] = []"
| "emitted (Emit e # es) = e # emitted es"
| "emitted (_ # es) = emitted es"

fun identified :: "effect list \<Rightarrow> handle list" where
  "identified [] = []"
| "identified (Identify h # es) = h # identified es"
| "identified (_ # es) = identified es"

definition effects_since :: "platform \<Rightarrow> platform \<Rightarrow> effect list" where
  "effects_since st st' = drop (length (effects st)) (effects st')"

section \<open>Callback server: \<open>handleRequest\<close> and the event bus\<close>

record IncomingMessage =
  url :: "string option"
  host :: "string option"

text \<open>
  \<open>URLSearchParams\<close> is the list of the query's pairs in order: \<open>has\<close> looks for a pair
  with the name, \<open>get\<close> returns the value of the first one, or \<open>null\<close>.
\<close>

definition searchParams_has :: "(string \<times> string) list \<Rightarrow> string \<Rightarrow> bool" where
  "searchParams_has p k = (map_of p k \<noteq> None)"

definition searchParams_get :: "(string \<times> string) list \<Rightarrow> string \<Rightarrow> string option" where
  "searchParams_get p k = map_of p k"

text \<open>\<open>v || d\<close> on a string or \<open>null\<close>: both \<open>null\<close> and the empty string are falsy.\<close>

definition or_else :: "string option \<Rightarrow> string \<Rightarrow> string" where
  "or_else v d = (case v of None \<Rightarrow> d | Some s \<Rightarrow> if s = [] then d else s)"

text \<open>A template literal prints a missing header as \<open>undefined\<close>.\<close>

definition base_of :: "string option \<Rightarrow> string" where
  "base_of h = ''http://'' @ (case h of None \<Rightarrow> ''undefined'' | Some x \<Rightarrow> x)"

text \<open>
  The parameter \<open>parse\<close> is \<open>new URL(input, base).searchParams\<close> of Node: the pairs of the
  query, or \<open>None\<close> where the constructor throws. Without a URL the handler does nothing,
  not even answer.
\<close>

definition handleRequest ::
  "(string \<Rightarrow> string \<Rightarrow> (string \<times> string) list option) \<Rightarrow> IncomingMessage \<Rightarrow> platform \<Rightarrow>
   error option \<times> platform" where
  "handleRequest parse request st =
     (case url request of
        None \<Rightarrow> (None, st)
      | Some u \<Rightarrow>
          if u = [] then (None, st)
          else
            (case parse u (base_of (host request)) of
               None \<Rightarrow> (Some TypeError, st)
             | Some p \<Rightarrow>
                 let st1 = perform (WriteHead 204) st;
                     st2 = perform End st1
                 in if searchParams_has p ''mac'' \<and> searchParams_has p ''action'' \<and>
                       searchParams_has p ''button''
                    then
                      let m = or_else (searchParams_get p ''mac'') [];
                          button = or_else (searchParams_get p ''button'') [];
                          action = or_else (searchParams_get p ''action'') ''1''
                      in (None, perform (Emit (BTN_PRESS m button action)) st2)
                    else (None, st2)))"

text \<open>
  The signature \<open>util/dingzEventBus.ts\<close> declares for a listener of the button event:
  \<^verbatim>\<open>listener: (mac: string, action: ButtonAction, button: ButtonId) => void\<close>
  The emitter calls a listener with the arguments of \<open>emit\<close> in their order, so the
  listener's parameters are bound by position.
\<close>

record listener_parameters =
  listener_mac :: string
  listener_action :: string
  listener_button :: string

fun declared_listener :: "event \<Rightarrow> listener_parameters option" where
  "declared_listener (BTN_PRESS a1 a2 a3) =
     Some \<lparr>listener_mac = a1, listener_action = a2, listener_button = a3\<rparr>"
| "declared_listener _ = None"

section \<open>Resilience policies: \<open>retry\<close>, \<open>circuitBreaker\<close>, \<open>retryWithBreaker\<close>\<close>

text \<open>
  The platform configures the policies (lines 43 to 55 of the platform file):
  \<^verbatim>\<open>
  const retry = Policy.handleAll().retry().exponential({ maxDelay: 10 * 1000, maxAttempts: 20 });
  const circuitBreaker = Policy.handleAll().circuitBreaker(10 * 1000, new ConsecutiveBreaker(5));
  const retryWithBreaker = Policy.wrap(retry, circuitBreaker);
  \<close>
  Both policies are built by \<open>Policy.handleAll()\<close>: they handle every error.
\<close>

definition handleAll :: "error \<Rightarrow> bool" where
  "handleAll e = True"

definition maxAttempts :: nat where
  "maxAttempts = 20"

definition halfOpenAfter :: nat where
  "halfOpenAfter = 10 * 1000"

definition ConsecutiveBreaker :: nat where
  "ConsecutiveBreaker = 5"

datatype circuit = Closed | Open nat

record breaker =
  circuit :: circuit
  failures :: nat

definition new_breaker :: breaker where
  "new_breaker = \<lparr>circuit = Closed, failures = 0\<rparr>"

text \<open>
  Modelled from the spec: the circuit breaker of the policy library, whose code is not
  among the sources (the platform only configures it). Section 4.1: it tracks consecutive
  failures across the invocations sharing it; after N consecutive failures it opens and
  rejects new invocations immediately, without invoking the operation, for a cool-down
  window; after the window it half-opens and allows one trial invocation, which closes
  (resets) or re-opens it. \<open>Open t\<close> is the breaker opened at time \<open>t\<close> (milliseconds);
  \<open>now\<close> is the time of the call. An error the policy does not handle passes through
  and leaves the breaker as it is. The second component of the result says whether the
  operation was invoked.
\<close>

definition circuitBreaker_execute ::
  "(error \<Rightarrow> bool) \<Rightarrow> nat \<Rightarrow> nat \<Rightarrow> nat \<Rightarrow> ('w \<Rightarrow> (error + 'a) \<times> 'w) \<Rightarrow> breaker \<times> 'w \<Rightarrow>
   (error + 'a) \<times> bool \<times> breaker \<times> 'w" where
  "circuitBreaker_execute handles cooldown threshold now op bw =
     (let b = fst bw; w = snd bw in
      case circuit b of
        Closed \<Rightarrow>
          (case op w of
             (Inr v, w') \<Rightarrow> (Inr v, True, b\<lparr>failures := 0\<rparr>, w')
           | (Inl e, w') \<Rightarrow>
               if handles e then
                 (if threshold \<le> failures b + 1
                  then (Inl e, True, \<lparr>circuit = Open now, failures = failures b + 1\<rparr>, w')
                  else (Inl e, True, b\<lparr>failures := failures b + 1\<rparr>, w'))
               else (Inl e, True, b, w'))
      | Open openedAt \<Rightarrow>
          if now - openedAt < cooldown then (Inl BrokenCircuitError, False, b, w)
          else
            (case op w of
               (Inr v, w') \<Rightarrow> (Inr v, True, \<lparr>circuit = Closed, failures = 0\<rparr>, w')
             | (Inl e, w') \<Rightarrow>
                 if handles e then (Inl e, True, b\<lparr>circuit := Open now\<rparr>, w')
                 else (Inl e, True, b, w')))"

text \<open>One entry of the record of a run: an attempt, the breaker it met, what it did.\<close>

record attempt =
  attempt_at :: nat
  circuit_before :: circuit
  op_invoked :: bool

text \<open>
  One attempt of the composed policy \<open>Policy.wrap(retry, circuitBreaker)\<close>: the retry
  policy calls the operation through the breaker. The attempt is written to the record.
\<close>

definition gated_attempt ::
  "('w \<Rightarrow> (error + 'a) \<times> 'w) \<Rightarrow> nat \<Rightarrow> breaker \<times> 'w \<times> attempt list \<Rightarrow>
   (error + 'a) \<times> breaker \<times> 'w \<times> attempt list" where
  "gated_attempt op now s =
     (let b = fst s; w = fst (snd s); log = snd (snd s) in
      case circuitBreaker_execute handleAll halfOpenAfter ConsecutiveBreaker now op (b, w) of
        (r, invoked, b', w') \<Rightarrow>
          (r, b', w', log @ [\<lparr>attempt_at = now, circuit_before = circuit b, op_invoked = invoked\<rparr>]))"

text \<open>
  Modelled from the spec: the retry loop of the policy library, whose code is not among
  the sources. Section 4.1: it invokes the operation; on failure it waits a growing,
  capped delay and retries, up to a maximum attempt count. The platform's comment reads
  "retry 20 times at most". \<open>clock k\<close> is the time at which attempt number \<open>k\<close> starts;
  it stands for the delays of the backoff and for the time the operation takes, neither
  of which the platform fixes. \<open>n\<close> is the number of retries left. An error the policy
  does not handle is thrown at once; after the last retry the failure is thrown to the
  caller.
\<close>

fun retry_loop ::
  "(error \<Rightarrow> bool) \<Rightarrow> (nat \<Rightarrow> nat) \<Rightarrow> (nat \<Rightarrow> 's \<Rightarrow> (error + 'a) \<times> 's) \<Rightarrow> nat \<Rightarrow> nat \<Rightarrow> 's \<Rightarrow>
   (error + 'a) \<times> 's" where
  "retry_loop handles clock att k 0 s = att (clock k) s"
| "retry_loop handles clock att k (Suc n) s =
     (case att (clock k) s of
        (Inr v, s') \<Rightarrow> (Inr v, s')
      | (Inl e, s') \<Rightarrow>
          if handles e then retry_loop handles clock att (Suc k) n s' else (Inl e, s'))"

text \<open>
  \<open>retryWithBreaker.execute(op)\<close> on the shared breaker \<open>b\<close> and the world \<open>w\<close> the
  operation acts on. The result holds the value or the error the caller receives, the
  breaker and the world afterwards, and the record of the attempts.
\<close>

definition retryWithBreaker_execute ::
  "(nat \<Rightarrow> nat) \<Rightarrow> ('w \<Rightarrow> (error + 'a) \<times> 'w) \<Rightarrow> breaker \<times> 'w \<Rightarrow>
   (error + 'a) \<times> breaker \<times> 'w \<times> attempt list" where
  "retryWithBreaker_execute clock op bw =
     retry_loop handleAll clock (gated_attempt op) 0 maxAttempts (fst bw, snd bw, [])"

definition attempts_of :: "(error + 'a) \<times> breaker \<times> 'w \<times> attempt list \<Rightarrow> attempt list" where
  "attempts_of r = snd (snd (snd r))"

text \<open>The attempts that met a closed breaker and invoked the operation.\<close>

fun invoked_while_closed :: "attempt list \<Rightarrow> nat" where
  "invoked_while_closed [] = 0"
| "invoked_while_closed (a # as) =
     (if circuit_before a = Closed \<and> op_invoked a then Suc (invoked_while_closed as)
      else invoked_while_closed as)"

text \<open>An operation that counts its invocations in the world and fails each time with \<open>e\<close>.\<close>

definition failing :: "error \<Rightarrow> nat \<Rightarrow> (error + unit) \<times> nat" where
  "failing e n = (Inl e, Suc n)"

section \<open>Example inputs\<close>

text \<open>
  Concrete inputs for the instances below: a configuration without a global token, the
  sender of a datagram, the datagram of the switch at MAC \<open>AA:BB:CC:DD:EE:FF\<close> (type
  code 106), the same MAC announced as a button (type code 103) and with a type code
  outside the table (200), a datagram that is too
  short, device descriptors, a stand-in for the UUID generator, two callback requests
  with what their URLs parse to, a request without a URL, and a clock with one attempt
  per second.
\<close>

definition example_config :: config where
  "example_config = \<lparr>globalToken = None\<rparr>"

definition example_remote :: RemoteInfo where
  "example_remote = \<lparr>remote_address = ''10.0.0.7'', remote_port = 7979\<rparr>"

definition switch_datagram :: "8 word list" where
  "switch_datagram = [0xAA, 0xBB, 0xCC, 0xDD, 0xEE, 0xFF, 0x6A, 0x00]"

definition button_datagram :: "8 word list" where
  "button_datagram = [0xAA, 0xBB, 0xCC, 0xDD, 0xEE, 0xFF, 0x67, 0x00]"

definition unknown_datagram :: "8 word list" where
  "unknown_datagram = [0xAA, 0xBB, 0xCC, 0xDD, 0xEE, 0xFF, 0xC8, 0x00]"

definition short_datagram :: "8 word list" where
  "short_datagram = [0xAA, 0xBB, 0xCC]"

definition example_generate :: "string \<Rightarrow> string" where
  "example_generate m = ''uuid-'' @ m"

definition switch_info :: MyStromDeviceInfo where
  "switch_info = \<lparr>mystrom_mac = ''aabbccddeeff'', mystrom_type = TNum 107, mystrom_name = None\<rparr>"

definition bulb_info :: MyStromDeviceInfo where
  "bulb_info = \<lparr>mystrom_mac = ''a1b2c3d4e5f6'', mystrom_type = TNum 102, mystrom_name = None\<rparr>"

definition dingz_info :: DingzDeviceInfo where
  "dingz_info = \<lparr>dingz_type = TStr ''dingz'', puck_hw_model = None\<rparr>"

definition other_info :: DingzDeviceInfo where
  "other_info = \<lparr>dingz_type = TStr ''other'', puck_hw_model = None\<rparr>"

definition full_request :: IncomingMessage where
  "full_request = \<lparr>url = Some ''/?mac=AABBCCDDEEFF&action=&button=2'', host = Some ''bridge''\<rparr>"

definition partial_request :: IncomingMessage where
  "partial_request = \<lparr>url = Some ''/?mac=AABBCCDDEEFF&button=2'', host = Some ''bridge''\<rparr>"

definition empty_request :: IncomingMessage where
  "empty_request = \<lparr>url = None, host = None\<rparr>"

definition example_parse :: "string \<Rightarrow> string \<Rightarrow> (string \<times> string) list option" where
  "example_parse u base =
     (if u = ''/?mac=AABBCCDDEEFF&action=&button=2''
      then Some [(''mac'', ''AABBCCDDEEFF''), (''action'', []), (''button'', ''2'')]
      else if u = ''/?mac=AABBCCDDEEFF&button=2''
      then Some [(''mac'', ''AABBCCDDEEFF''), (''button'', ''2'')]
      else None)"

definition every_second :: "nat \<Rightarrow> nat" where
  "every_second k = 1000 * k"

section \<open>Properties of discovery\<close>

lemma executed_append: "executed (xs @ ys) = executed xs @ executed ys"
  by (induction xs rule: executed.induct) simp_all

lemma route_by_type_discovered:
  "route_by_type cfg t r st = Inr st' \<Longrightarrow> discovered st' = discovered st"
  by (auto simp: route_by_type_def execute_registration_def perform_def split: if_splits)

lemma route_by_type_supported:
  "t \<noteq> MYSTROM_BUTTON_PLUS \<Longrightarrow> t \<noteq> MYSTROM_BUTTON \<Longrightarrow> \<exists>st'. route_by_type cfg t r st = Inr st'"
  by (simp add: route_by_type_def)

lemma handler_keeps_seen:
  "discovered st m \<noteq> None \<Longrightarrow> discovered (snd (datagramMessageHandler cfg msg r st)) m \<noteq> None"
  by (auto simp: datagramMessageHandler_def datagramMessageHandler_try_def perform_def Let_def
      dest: route_by_type_discovered split: sum.splits error.splits if_splits)

lemma session_keeps_seen:
  "discovered st m \<noteq> None \<Longrightarrow> discovered (discovery_session cfg ds st) m \<noteq> None"
proof (induction ds arbitrary: st)
  case Nil
  then show ?case by simp
next
  case (Cons d ds)
  obtain msg r where d: "d = (msg, r)" by (cases d)
  from Cons.prems have "discovered (snd (datagramMessageHandler cfg msg r st)) m \<noteq> None"
    by (rule handler_keeps_seen)
  then show ?case using Cons.IH d by simp
qed

lemma handler_records:
  assumes "length msg = 8"
    and "datagram_type msg \<noteq> MYSTROM_BUTTON_PLUS" "datagram_type msg \<noteq> MYSTROM_BUTTON"
  shows "discovered (snd (datagramMessageHandler cfg msg r st)) (datagram_mac msg) \<noteq> None"
proof (cases "discovered st (datagram_mac msg) = None")
  case False
  then show ?thesis by (rule handler_keeps_seen)
next
  case True
  from route_by_type_supported [OF assms(2,3)] obtain st' where
    "route_by_type cfg (datagram_type msg) r st = Inr st'" by blast
  with True assms(1) show ?thesis
    by (simp add: datagramMessageHandler_def datagramMessageHandler_try_def)
qed

lemma handler_seen:
  assumes "length msg = 8" "discovered st (datagram_mac msg) \<noteq> None"
  shows "datagramMessageHandler cfg msg r st =
           (None, perform (Debug ''Accessory already initialized. Stopping Discovery here.'') st)"
  using assms by (simp add: datagramMessageHandler_def datagramMessageHandler_try_def)

lemma same_mac_bytes: "take 6 d1 = take 6 d2 \<Longrightarrow> datagram_mac d1 = datagram_mac d2"
proof -
  assume "take 6 d1 = take 6 d2"
  then have "take 5 (take 6 d1) = take 5 (take 6 d2)" by simp
  then have "take 5 d1 = take 5 d2" by simp
  then show ?thesis by (simp add: datagram_mac_def subarray_def)
qed

text \<open>
  Claim C5. A datagram whose length is not 8 is dropped: no exception leaves the handler,
  the only effect is one debug line with the message of the error thrown by the length
  check, no registration closure is handed to the retry policy, and the table of
  discovered devices and the registry stay as they were.
\<close>

theorem datagram_length_guard:
  assumes "length msg \<noteq> 8"
  shows "fst (datagramMessageHandler cfg msg r st) = None \<and>
         effects (snd (datagramMessageHandler cfg msg r st)) =
           effects st @ [Debug ''Detected data can not be parsed.''] \<and>
         executed (effects (snd (datagramMessageHandler cfg msg r st))) = executed (effects st) \<and>
         discovered (snd (datagramMessageHandler cfg msg r st)) = discovered st \<and>
         accessories (snd (datagramMessageHandler cfg msg r st)) = accessories st"
  using assms
  by (simp add: datagramMessageHandler_def datagramMessageHandler_try_def perform_def
      executed_append)

theorem datagram_length_guard_witness:
  "length short_datagram \<noteq> 8 \<and>
   fst (datagramMessageHandler example_config short_datagram example_remote new_platform) = None \<and>
   effects (snd (datagramMessageHandler example_config short_datagram example_remote new_platform)) =
     [Debug ''Detected data can not be parsed.''] \<and>
   discovered (snd (datagramMessageHandler example_config short_datagram example_remote new_platform)) =
     Map.empty"
proof -
  have h: "length short_datagram \<noteq> 8" by (simp add: short_datagram_def)
  from datagram_length_guard [OF h, of example_config example_remote new_platform] h
  show ?thesis by (simp add: new_platform_def)
qed

text \<open>
  Claim C6. The handler reads the device type from byte 6, and renders the MAC as
  upper-case hexadecimal, two digits per byte, without separators; but it renders
  \<open>msg.subarray(0, 5)\<close>, the bytes 0 to 4. The datagram of the device with MAC
  \<open>AA:BB:CC:DD:EE:FF\<close> and type code 106 gives the ten digits \<open>AABBCCDDEE\<close>: the
  sixth byte of the MAC is not decoded.
\<close>

theorem datagram_mac_five_bytes:
  "datagram_mac switch_datagram = ''AABBCCDDEE'' \<and>
   datagram_type switch_datagram = MYSTROM_SWITCH_CHV2"
  by code_simp

lemma handler_registers:
  assumes "length msg = 8"
    and "datagram_type msg \<in> {MYSTROM_SWITCH_CHV1, MYSTROM_BULB, MYSTROM_LEDSTRIP,
           MYSTROM_SWITCH_CHV2, MYSTROM_SWITCH_EU, DINGZ}"
    and "discovered st (datagram_mac msg) = None"
  shows "\<exists>c. executed (effects (snd (datagramMessageHandler cfg msg r st))) =
               executed (effects st) @ [c] \<and>
             call_address c = remote_address r \<and> call_token c = globalToken cfg"
  using assms
  by (auto simp: datagramMessageHandler_def datagramMessageHandler_try_def route_by_type_def
      execute_registration_def perform_def executed_append
      MYSTROM_SWITCH_CHV1_def MYSTROM_BULB_def MYSTROM_BUTTON_PLUS_def MYSTROM_BUTTON_def
      MYSTROM_LEDSTRIP_def MYSTROM_SWITCH_CHV2_def MYSTROM_SWITCH_EU_def DINGZ_def)

text \<open>
  Claim C7, as amended. Within one discovery session, take two datagrams of 8 bytes with
  the same six MAC bytes. If the first has one of the six supported type codes (101, 102,
  105, 106, 107, 108) and its decoded MAC is not yet in the table of discovered devices,
  it triggers exactly one registration attempt, for the address it came from. If the
  type code of the first is not one of the two button types 103 and 104, handling it
  leaves its MAC in the table; whatever datagrams come in between, the second is then
  dropped with one debug line: no exception, no registration closure handed to the retry
  policy, the table and the registry unchanged.
\<close>

theorem discovery_deduplication:
  assumes "length d1 = 8" "length d2 = 8" "take 6 d1 = take 6 d2"
  shows "let s1 = snd (datagramMessageHandler cfg d1 r1 st);
             s2 = discovery_session cfg between s1;
             s3 = snd (datagramMessageHandler cfg d2 r2 s2)
         in (datagram_type d1 \<in> {MYSTROM_SWITCH_CHV1, MYSTROM_BULB, MYSTROM_LEDSTRIP,
               MYSTROM_SWITCH_CHV2, MYSTROM_SWITCH_EU, DINGZ} \<and>
             discovered st (datagram_mac d1) = None \<longrightarrow>
               (\<exists>c. executed (effects s1) = executed (effects st) @ [c] \<and>
                    call_address c = remote_address r1 \<and> call_token c = globalToken cfg)) \<and>
            (datagram_type d1 \<noteq> MYSTROM_BUTTON_PLUS \<and> datagram_type d1 \<noteq> MYSTROM_BUTTON \<longrightarrow>
               discovered s1 (datagram_mac d1) \<noteq> None \<and>
               fst (datagramMessageHandler cfg d2 r2 s2) = None \<and>
               effects s3 =
                 effects s2 @ [Debug ''Accessory already initialized. Stopping Discovery here.''] \<and>
               executed (effects s3) = executed (effects s2) \<and>
               discovered s3 = discovered s2 \<and>
               accessories s3 = accessories s2)"
proof -
  define s1 where "s1 = snd (datagramMessageHandler cfg d1 r1 st)"
  define s2 where "s2 = discovery_session cfg between s1"
  define s3 where "s3 = snd (datagramMessageHandler cfg d2 r2 s2)"
  have first: "\<exists>c. executed (effects s1) = executed (effects st) @ [c] \<and>
                 call_address c = remote_address r1 \<and> call_token c = globalToken cfg"
    if "datagram_type d1 \<in> {MYSTROM_SWITCH_CHV1, MYSTROM_BULB, MYSTROM_LEDSTRIP,
          MYSTROM_SWITCH_CHV2, MYSTROM_SWITCH_EU, DINGZ}"
      and "discovered st (datagram_mac d1) = None"
    unfolding s1_def using assms(1) that by (rule handler_registers)
  have second: "discovered s1 (datagram_mac d1) \<noteq> None \<and>
      fst (datagramMessageHandler cfg d2 r2 s2) = None \<and>
      effects s3 =
        effects s2 @ [Debug ''Accessory already initialized. Stopping Discovery here.''] \<and>
      executed (effects s3) = executed (effects s2) \<and>
      discovered s3 = discovered s2 \<and>
      accessories s3 = accessories s2"
    if "datagram_type d1 \<noteq> MYSTROM_BUTTON_PLUS" "datagram_type d1 \<noteq> MYSTROM_BUTTON"
  proof -
    have rec: "discovered s1 (datagram_mac d1) \<noteq> None"
      unfolding s1_def using assms(1) that by (rule handler_records)
    then have "discovered s2 (datagram_mac d1) \<noteq> None"
      unfolding s2_def by (rule session_keeps_seen)
    then have "discovered s2 (datagram_mac d2) \<noteq> None"
      using same_mac_bytes [OF assms(3)] by simp
    from handler_seen [OF assms(2) this]
    have "datagramMessageHandler cfg d2 r2 s2 =
            (None, perform (Debug ''Accessory already initialized. Stopping Discovery here.'') s2)" .
    with rec show ?thesis
      by (simp add: s3_def perform_def executed_append)
  qed
  from first second show ?thesis
    unfolding Let_def s1_def [symmetric] s2_def [symmetric] s3_def [symmetric] by blast
qed

theorem discovery_deduplication_witness:
  "length switch_datagram = 8 \<and>
   datagram_type switch_datagram \<in> {MYSTROM_SWITCH_CHV1, MYSTROM_BULB, MYSTROM_LEDSTRIP,
     MYSTROM_SWITCH_CHV2, MYSTROM_SWITCH_EU, DINGZ} \<and>
   discovered new_platform (datagram_mac switch_datagram) = None \<and>
   datagram_type switch_datagram \<noteq> MYSTROM_BUTTON_PLUS \<and>
   datagram_type switch_datagram \<noteq> MYSTROM_BUTTON \<and>
   (\<exists>c. executed (effects (snd (datagramMessageHandler example_config switch_datagram
            example_remote new_platform))) = executed (effects new_platform) @ [c] \<and>
        call_address c = remote_address example_remote \<and>
        call_token c = globalToken example_config) \<and>
   executed (effects (snd (datagramMessageHandler example_config switch_datagram example_remote
      (discovery_session example_config [(button_datagram, example_remote)]
        (snd (datagramMessageHandler example_config switch_datagram example_remote
           new_platform)))))) =
   executed (effects (discovery_session example_config [(button_datagram, example_remote)]
      (snd (datagramMessageHandler example_config switch_datagram example_remote new_platform))))"
proof -
  have h1: "length switch_datagram = 8" by (simp add: switch_datagram_def)
  have h2: "datagram_type switch_datagram \<noteq> MYSTROM_BUTTON_PLUS"
    by (simp add: switch_datagram_def datagram_type_def MYSTROM_BUTTON_PLUS_def)
  have h3: "datagram_type switch_datagram \<noteq> MYSTROM_BUTTON"
    by (simp add: switch_datagram_def datagram_type_def MYSTROM_BUTTON_def)
  have h4: "datagram_type switch_datagram \<in> {MYSTROM_SWITCH_CHV1, MYSTROM_BULB, MYSTROM_LEDSTRIP,
     MYSTROM_SWITCH_CHV2, MYSTROM_SWITCH_EU, DINGZ}"
    by (simp add: switch_datagram_def datagram_type_def MYSTROM_SWITCH_CHV2_def)
  have h5: "discovered new_platform (datagram_mac switch_datagram) = None"
    by (simp add: new_platform_def)
  note t = discovery_deduplication [OF h1 h1 refl,
      where cfg = example_config and ?r1.0 = example_remote and st = new_platform
        and between = "[(button_datagram, example_remote)]" and ?r2.0 = example_remote,
      unfolded Let_def]
  note a = t [THEN conjunct1, THEN mp, OF conjI [OF h4 h5]]
  note b = t [THEN conjunct2, THEN mp, OF conjI [OF h2 h3]]
  show ?thesis
    by (intro conjI h1 h4 h5 h2 h3 a
        b [THEN conjunct2, THEN conjunct2, THEN conjunct2, THEN conjunct1])
qed

text \<open>
  The claim as it was stated fails when the first datagram announces a button: the
  handler throws before it records the MAC, so the first datagram starts no
  registration, and a later datagram with the same MAC bytes and the type code of a
  switch starts one. A first datagram with a type code outside the table (200) is
  recorded, but starts no registration either.
\<close>

theorem button_datagram_not_recorded:
  "take 6 button_datagram = take 6 switch_datagram \<and>
   executed (effects (snd (datagramMessageHandler example_config button_datagram example_remote
      new_platform))) = [] \<and>
   executed (effects (snd (datagramMessageHandler example_config switch_datagram example_remote
      (snd (datagramMessageHandler example_config button_datagram example_remote new_platform))))) =
   [\<lparr>call_entry = AddMyStromSwitchDevice, call_address = ''10.0.0.7'',
     call_name = ''Auto-Discovered MyStromSwitch'', call_token = None\<rparr>] \<and>
   executed (effects (snd (datagramMessageHandler example_config unknown_datagram example_remote
      new_platform))) = []"
  by code_simp

section \<open>Properties of registration\<close>

lemmas entry_point_defs =
  addMyStromSwitchDevice_def addMyStromSwitchDevice_then_def
  addMyStromLightbulbDevice_def addMyStromLightbulbDevice_then_def
  addDingzDevice_def addDingzDevice_then_def
  getMyStromDeviceInfo_def getDingzDeviceInfo_def fetch_def perform_def truthy_promise_def
  switch_deviceInfo_def lightbulb_deviceInfo_def dingz_deviceInfo_def register_new_def
  effects_since_def Let_def

lemma switch_accepted:
  "t \<in> {TStr ''WS2'', TNum 106, TStr ''WSEU'', TNum 107, TUndefined} \<longleftrightarrow>
     \<not> switch_type_mismatch t"
  by (auto simp: switch_type_mismatch_def)

lemma lightbulb_accepted:
  "t \<in> {TNum 102, TNum 105, TStr ''WRS''} \<longleftrightarrow> \<not> lightbulb_type_mismatch t"
  by (auto simp: lightbulb_type_mismatch_def)

lemma switch_twice:
  assumes "mystrom_type i1 \<in> {TStr ''WS2'', TNum 106, TStr ''WSEU'', TNum 107, TUndefined}"
    and "mystrom_type i2 \<in> {TStr ''WS2'', TNum 106, TStr ''WSEU'', TNum 107, TUndefined}"
    and "generate (toUpperCase (mystrom_mac i2)) = generate (toUpperCase (mystrom_mac i1))"
  shows "let o1 = addMyStromSwitchDevice generate a1 n1 t1 (Response i1) st;
             o2 = addMyStromSwitchDevice generate a2 n2 t2 (Response i2) (after o1);
             u = generate (toUpperCase (mystrom_mac i1))
         in \<exists>h. accessories (after o1) u = Some h \<and>
                success o2 = Fulfilled (Some True) \<and>
                accessories (after o2) = accessories (after o1) \<and>
                dom (accessories (after o2)) = insert u (dom (accessories st)) \<and>
                constructed (effects_since (after o1) (after o2)) = [] \<and>
                identified (effects_since (after o1) (after o2)) = [h] \<and>
                emitted (effects_since (after o1) (after o2)) = [] \<and>
                length (constructed (effects_since st (after o2))) \<le> 1"
  using assms unfolding switch_accepted lightbulb_accepted
  by (cases "accessories st (generate (toUpperCase (mystrom_mac i1)))")
     (auto simp: entry_point_defs)

lemma lightbulb_twice:
  assumes "mystrom_type i1 \<in> {TNum 102, TNum 105, TStr ''WRS''}"
    and "mystrom_type i2 \<in> {TNum 102, TNum 105, TStr ''WRS''}"
    and "generate (toUpperCase (mystrom_mac i2)) = generate (toUpperCase (mystrom_mac i1))"
  shows "let o1 = addMyStromLightbulbDevice generate a1 n1 t1 (Response i1) st;
             o2 = addMyStromLightbulbDevice generate a2 n2 t2 (Response i2) (after o1);
             u = generate (toUpperCase (mystrom_mac i1))
         in \<exists>h. accessories (after o1) u = Some h \<and>
                success o2 = Fulfilled (Some True) \<and>
                accessories (after o2) = accessories (after o1) \<and>
                dom (accessories (after o2)) = insert u (dom (accessories st)) \<and>
                constructed (effects_since (after o1) (after o2)) = [] \<and>
                identified (effects_since (after o1) (after o2)) = [h] \<and>
                emitted (effects_since (after o1) (after o2)) = [] \<and>
                length (constructed (effects_since st (after o2))) \<le> 1"
  using assms unfolding switch_accepted lightbulb_accepted
  by (cases "accessories st (generate (toUpperCase (mystrom_mac i1)))")
     (auto simp: entry_point_defs)

lemma dingz_twice:
  assumes "dingz_type i1 = TStr ''dingz''" "dingz_type i2 = TStr ''dingz''"
    and "generate (toUpperCase k2) = generate (toUpperCase k1)"
  shows "let o1 = addDingzDevice generate a1 n1 t1 (Response ((k1, i1) # more1)) st;
             o2 = addDingzDevice generate a2 n2 t2 (Response ((k2, i2) # more2)) (after o1);
             u = generate (toUpperCase k1)
         in \<exists>h. accessories (after o1) u = Some h \<and>
                success o2 = Fulfilled (Some True) \<and>
                accessories (after o2) = accessories (after o1) \<and>
                dom (accessories (after o2)) = insert u (dom (accessories st)) \<and>
                constructed (effects_since (after o1) (after o2)) = [] \<and>
                identified (effects_since (after o1) (after o2)) = [h] \<and>
                emitted (effects_since (after o1) (after o2)) = [UPDATE_INFO h] \<and>
                length (constructed (effects_since st (after o2))) \<le> 1"
  using assms
  by (cases "accessories st (generate (toUpperCase k1))") (auto simp: entry_point_defs)

text \<open>
  Claim C1, as amended. For each of the three entry points: when the registration flow
  runs twice for descriptors of an accepted type whose MACs give the same identity, the
  registry holds one entry for that identity after the first run, and it is the only key
  the two runs added. The second run takes the path of a known accessory: its promise is
  fulfilled with \<open>true\<close>, the registry is unchanged, no handle is constructed, and
  \<open>identify\<close> is called on the handle already registered. At most one handle is
  constructed over the two runs. The flow of the Dingz controller publishes one
  \<open>UPDATE_INFO\<close> event with that handle; the flows of the myStrom switch and of the
  myStrom lightbulb publish no event.
\<close>

theorem idempotent_registration:
  "(dingz_type i1 = TStr ''dingz'' \<and> dingz_type i2 = TStr ''dingz'' \<and>
    generate (toUpperCase k2) = generate (toUpperCase k1) \<longrightarrow>
      (let o1 = addDingzDevice generate a1 n1 t1 (Response ((k1, i1) # more1)) st;
           o2 = addDingzDevice generate a2 n2 t2 (Response ((k2, i2) # more2)) (after o1);
           u = generate (toUpperCase k1)
       in \<exists>h. accessories (after o1) u = Some h \<and>
              success o2 = Fulfilled (Some True) \<and>
              accessories (after o2) = accessories (after o1) \<and>
              dom (accessories (after o2)) = insert u (dom (accessories st)) \<and>
              constructed (effects_since (after o1) (after o2)) = [] \<and>
              identified (effects_since (after o1) (after o2)) = [h] \<and>
              emitted (effects_since (after o1) (after o2)) = [UPDATE_INFO h] \<and>
              length (constructed (effects_since st (after o2))) \<le> 1)) \<and>
   (mystrom_type s1 \<in> {TStr ''WS2'', TNum 106, TStr ''WSEU'', TNum 107, TUndefined} \<and>
    mystrom_type s2 \<in> {TStr ''WS2'', TNum 106, TStr ''WSEU'', TNum 107, TUndefined} \<and>
    generate (toUpperCase (mystrom_mac s2)) = generate (toUpperCase (mystrom_mac s1)) \<longrightarrow>
      (let o1 = addMyStromSwitchDevice generate a1 n1 t1 (Response s1) st;
           o2 = addMyStromSwitchDevice generate a2 n2 t2 (Response s2) (after o1);
           u = generate (toUpperCase (mystrom_mac s1))
       in \<exists>h. accessories (after o1) u = Some h \<and>
              success o2 = Fulfilled (Some True) \<and>
              accessories (after o2) = accessories (after o1) \<and>
              dom (accessories (after o2)) = insert u (dom (accessories st)) \<and>
              constructed (effects_since (after o1) (after o2)) = [] \<and>
              identified (effects_since (after o1) (after o2)) = [h] \<and>
              emitted (effects_since (after o1) (after o2)) = [] \<and>
              length (constructed (effects_since st (after o2))) \<le> 1)) \<and>
   (mystrom_type b1 \<in> {TNum 102, TNum 105, TStr ''WRS''} \<and>
    mystrom_type b2 \<in> {TNum 102, TNum 105, TStr ''WRS''} \<and>
    generate (toUpperCase (mystrom_mac b2)) = generate (toUpperCase (mystrom_mac b1)) \<longrightarrow>
      (let o1 = addMyStromLightbulbDevice generate a1 n1 t1 (Response b1) st;
           o2 = addMyStromLightbulbDevice generate a2 n2 t2 (Response b2) (after o1);
           u = generate (toUpperCase (mystrom_mac b1))
       in \<exists>h. accessories (after o1) u = Some h \<and>
              success o2 = Fulfilled (Some True) \<and>
              accessories (after o2) = accessories (after o1) \<and>
              dom (accessories (after o2)) = insert u (dom (accessories st)) \<and>
              constructed (effects_since (after o1) (after o2)) = [] \<and>
              identified (effects_since (after o1) (after o2)) = [h] \<and>
              emitted (effects_since (after o1) (after o2)) = [] \<and>
              length (constructed (effects_since st (after o2))) \<le> 1))"
  using dingz_twice [of i1 i2 generate k2 k1 a1 n1 t1 more1 st a2 n2 t2 more2]
    switch_twice [of s1 s2 generate a1 n1 t1 st a2 n2 t2]
    lightbulb_twice [of b1 b2 generate a1 n1 t1 st a2 n2 t2]
  by blast

theorem idempotent_registration_witness:
  "dingz_type dingz_info = TStr ''dingz'' \<and>
   mystrom_type switch_info \<in> {TStr ''WS2'', TNum 106, TStr ''WSEU'', TNum 107, TUndefined} \<and>
   mystrom_type bulb_info \<in> {TNum 102, TNum 105, TStr ''WRS''} \<and>
   (let o1 = addDingzDevice example_generate ''10.0.0.7'' None None (Response ((''a1b2c3d4e5f6'', dingz_info) # [])) new_platform;
        o2 = addDingzDevice example_generate ''10.0.0.7'' None None (Response ((''a1b2c3d4e5f6'', dingz_info) # [])) (after o1);
        u = example_generate (toUpperCase ''a1b2c3d4e5f6'')
    in \<exists>h. accessories (after o1) u = Some h \<and>
           success o2 = Fulfilled (Some True) \<and>
           accessories (after o2) = accessories (after o1) \<and>
           dom (accessories (after o2)) = insert u (dom (accessories new_platform)) \<and>
           constructed (effects_since (after o1) (after o2)) = [] \<and>
           identified (effects_since (after o1) (after o2)) = [h] \<and>
           emitted (effects_since (after o1) (after o2)) = [UPDATE_INFO h] \<and>
           length (constructed (effects_since new_platform (after o2))) \<le> 1) \<and>
   (let o1 = addMyStromSwitchDevice example_generate ''10.0.0.7'' None None (Response switch_info) new_platform;
        o2 = addMyStromSwitchDevice example_generate ''10.0.0.7'' None None (Response switch_info) (after o1);
        u = example_generate (toUpperCase (mystrom_mac switch_info))
    in \<exists>h. accessories (after o1) u = Some h \<and>
           success o2 = Fulfilled (Some True) \<and>
           accessories (after o2) = accessories (after o1) \<and>
           dom (accessories (after o2)) = insert u (dom (accessories new_platform)) \<and>
           constructed (effects_since (after o1) (after o2)) = [] \<and>
           identified (effects_since (after o1) (after o2)) = [h] \<and>
           emitted (effects_since (after o1) (after o2)) = [] \<and>
           length (constructed (effects_since new_platform (after o2))) \<le> 1) \<and>
   (let o1 = addMyStromLightbulbDevice example_generate ''10.0.0.7'' None None (Response bulb_info) new_platform;
        o2 = addMyStromLightbulbDevice example_generate ''10.0.0.7'' None None (Response bulb_info) (after o1);
        u = example_generate (toUpperCase (mystrom_mac bulb_info))
    in \<exists>h. accessories (after o1) u = Some h \<and>
           success o2 = Fulfilled (Some True) \<and>
           accessories (after o2) = accessories (after o1) \<and>
           dom (accessories (after o2)) = insert u (dom (accessories new_platform)) \<and>
           constructed (effects_since (after o1) (after o2)) = [] \<and>
           identified (effects_since (after o1) (after o2)) = [h] \<and>
           emitted (effects_since (after o1) (after o2)) = [] \<and>
           length (constructed (effects_since new_platform (after o2))) \<le> 1)"
proof -
  have d: "dingz_type dingz_info = TStr ''dingz''" by (simp add: dingz_info_def)
  have s: "mystrom_type switch_info \<in> {TStr ''WS2'', TNum 106, TStr ''WSEU'', TNum 107, TUndefined}"
    by (simp add: switch_info_def)
  have b: "mystrom_type bulb_info \<in> {TNum 102, TNum 105, TStr ''WRS''}"
    by (simp add: bulb_info_def)
  note t = idempotent_registration [where generate = example_generate and st = new_platform
      and ?i1.0 = dingz_info and ?i2.0 = dingz_info
      and ?k1.0 = "''a1b2c3d4e5f6''" and ?k2.0 = "''a1b2c3d4e5f6''"
      and ?more1.0 = "[]" and ?more2.0 = "[]"
      and ?s1.0 = switch_info and ?s2.0 = switch_info
      and ?b1.0 = bulb_info and ?b2.0 = bulb_info
      and ?a1.0 = "''10.0.0.7''" and ?a2.0 = "''10.0.0.7''"
      and ?n1.0 = None and ?n2.0 = None and ?t1.0 = None and ?t2.0 = None]
  note dz = t [THEN conjunct1, THEN mp, OF conjI [OF d conjI [OF d refl]]]
  note sw = t [THEN conjunct2, THEN conjunct1, THEN mp, OF conjI [OF s conjI [OF s refl]]]
  note bl = t [THEN conjunct2, THEN conjunct2, THEN mp, OF conjI [OF b conjI [OF b refl]]]
  show ?thesis by (intro conjI d s b dz sw bl)
qed

text \<open>
  The claim as it was stated fails for the myStrom switch: registering the same switch
  twice publishes no event at all, while \<open>identify\<close> is called once.
\<close>

theorem switch_reregistration_publishes_nothing:
  "emitted (effects (after (addMyStromSwitchDevice example_generate ''10.0.0.7'' None None
      (Response switch_info)
      (after (addMyStromSwitchDevice example_generate ''10.0.0.7'' None None
         (Response switch_info) new_platform))))) = [] \<and>
   length (identified (effects (after (addMyStromSwitchDevice example_generate ''10.0.0.7'' None None
      (Response switch_info)
      (after (addMyStromSwitchDevice example_generate ''10.0.0.7'' None None
         (Response switch_info) new_platform)))))) = 1"
  by (simp add: entry_point_defs switch_type_mismatch_def switch_info_def new_platform_def
      MYSTROM_SWITCH_TYPES_def)

lemma returned_true:
  "returned (addDingzDevice generate addr nm tok response1 st) = Inr True"
  "returned (addMyStromSwitchDevice generate addr nm tok response2 st) = Inr True"
  "returned (addMyStromLightbulbDevice generate addr nm tok response2 st) = Inr True"
  by (simp_all add: addDingzDevice_def addMyStromSwitchDevice_def addMyStromLightbulbDevice_def
      truthy_promise_def Let_def split: prod.splits)

text \<open>
  Claim C2. The claim does not hold of the code. For a descriptor whose type is outside
  the set its entry point accepts (102, 105 and \<open>WRS\<close> for the lightbulb; \<open>WS2\<close>, 106,
  \<open>WSEU\<close>, 107 and no type for the switch; \<open>dingz\<close> for the Dingz controller), the
  callback throws \<open>InvalidTypeError\<close> and leaves the registry as it was, but the error
  only rejects the promise \<open>success\<close>, which the entry point neither returns nor awaits:
  the entry point returns \<open>true\<close> to its caller. It is the defect of claim C4.
\<close>

theorem type_mismatch_returns_true:
  "(mystrom_type info \<notin> {TNum 102, TNum 105, TStr ''WRS''} \<longrightarrow>
      returned (addMyStromLightbulbDevice generate addr nm tok (Response info) st) = Inr True \<and>
      success (addMyStromLightbulbDevice generate addr nm tok (Response info) st) =
        Rejected InvalidTypeError \<and>
      accessories (after (addMyStromLightbulbDevice generate addr nm tok (Response info) st)) =
        accessories st) \<and>
   (mystrom_type info \<notin> {TStr ''WS2'', TNum 106, TStr ''WSEU'', TNum 107, TUndefined} \<longrightarrow>
      returned (addMyStromSwitchDevice generate addr nm tok (Response info) st) = Inr True \<and>
      success (addMyStromSwitchDevice generate addr nm tok (Response info) st) =
        Rejected InvalidTypeError \<and>
      accessories (after (addMyStromSwitchDevice generate addr nm tok (Response info) st)) =
        accessories st) \<and>
   (dingz_type dinfo \<noteq> TStr ''dingz'' \<longrightarrow>
      returned (addDingzDevice generate addr nm tok (Response ((key, dinfo) # others)) st) =
        Inr True \<and>
      success (addDingzDevice generate addr nm tok (Response ((key, dinfo) # others)) st) =
        Rejected InvalidTypeError \<and>
      accessories (after (addDingzDevice generate addr nm tok (Response ((key, dinfo) # others)) st)) =
        accessories st)"
  by (simp add: returned_true)
     (simp add: entry_point_defs switch_type_mismatch_def lightbulb_type_mismatch_def)

theorem type_mismatch_returns_true_witness:
  "mystrom_type switch_info \<notin> {TNum 102, TNum 105, TStr ''WRS''} \<and>
   returned (addMyStromLightbulbDevice example_generate ''10.0.0.7'' None None
     (Response switch_info) new_platform) = Inr True \<and>
   success (addMyStromLightbulbDevice example_generate ''10.0.0.7'' None None
     (Response switch_info) new_platform) = Rejected InvalidTypeError \<and>
   accessories (after (addMyStromLightbulbDevice example_generate ''10.0.0.7'' None None
     (Response switch_info) new_platform)) = Map.empty \<and>
   mystrom_type bulb_info \<notin> {TStr ''WS2'', TNum 106, TStr ''WSEU'', TNum 107, TUndefined} \<and>
   returned (addMyStromSwitchDevice example_generate ''10.0.0.7'' None None
     (Response bulb_info) new_platform) = Inr True \<and>
   success (addMyStromSwitchDevice example_generate ''10.0.0.7'' None None
     (Response bulb_info) new_platform) = Rejected InvalidTypeError \<and>
   dingz_type other_info \<noteq> TStr ''dingz'' \<and>
   returned (addDingzDevice example_generate ''10.0.0.7'' None None
     (Response [(''a1b2c3d4e5f6'', other_info)]) new_platform) = Inr True \<and>
   success (addDingzDevice example_generate ''10.0.0.7'' None None
     (Response [(''a1b2c3d4e5f6'', other_info)]) new_platform) = Rejected InvalidTypeError"
proof -
  have h1: "mystrom_type switch_info \<notin> {TNum 102, TNum 105, TStr ''WRS''}"
    by (simp add: switch_info_def)
  have h2: "mystrom_type bulb_info \<notin> {TStr ''WS2'', TNum 106, TStr ''WSEU'', TNum 107, TUndefined}"
    by (simp add: bulb_info_def)
  have h3: "dingz_type other_info \<noteq> TStr ''dingz''"
    by (simp add: other_info_def)
  note t1 = type_mismatch_returns_true [where info = switch_info and generate = example_generate
      and addr = "''10.0.0.7''" and nm = None and tok = None and st = new_platform]
  note t2 = type_mismatch_returns_true [where info = bulb_info and dinfo = other_info
      and key = "''a1b2c3d4e5f6''" and others = "[]" and generate = example_generate
      and addr = "''10.0.0.7''" and nm = None and tok = None and st = new_platform]
  from h1 h2 h3 t1 t2 show ?thesis by (simp add: new_platform_def)
qed

text \<open>
  Claim C4. The claim does not hold of the code. When the device does not answer, the
  resolver yields \<open>undefined\<close>; every entry point then returns \<open>true\<close>, and its promise
  is fulfilled with \<open>undefined\<close>. \<open>DeviceNotReachableError\<close> is thrown under
  \<open>if (!success)\<close>, where \<open>success\<close> is the promise itself and therefore truthy.
\<close>

theorem unreachable_device_returns_true:
  "returned (addMyStromSwitchDevice generate addr nm tok Failure st) = Inr True \<and>
   success (addMyStromSwitchDevice generate addr nm tok Failure st) = Fulfilled None \<and>
   returned (addMyStromLightbulbDevice generate addr nm tok Failure st) = Inr True \<and>
   success (addMyStromLightbulbDevice generate addr nm tok Failure st) = Fulfilled None \<and>
   returned (addDingzDevice generate addr nm tok Failure st) = Inr True \<and>
   success (addDingzDevice generate addr nm tok Failure st) = Fulfilled None"
  by (simp add: entry_point_defs)

section \<open>Properties of the callback server\<close>

lemmas handleRequest_defs =
  handleRequest_def searchParams_has_def searchParams_get_def or_else_def perform_def
  effects_since_def Let_def

text \<open>
  Claim C8. For a request whose URL parses: when \<open>mac\<close>, \<open>action\<close> and \<open>button\<close> are all
  present, exactly one button event is published, carrying the value of \<open>mac\<close>, the
  value of \<open>button\<close> and the value of \<open>action\<close>, where only an \<open>action\<close> that is present
  and empty is replaced by \<open>1\<close>; when any of the three is absent, \<open>action\<close> included, no
  event is published. A request without a URL, or with one that does not parse, has no
  parameters, and no event is published for it either.
\<close>

theorem callback_parameter_completeness:
  "(url request = Some u \<and> u \<noteq> [] \<and> parse u (base_of (host request)) = Some p \<and>
    searchParams_get p ''mac'' = Some m \<and> searchParams_get p ''action'' = Some a \<and>
    searchParams_get p ''button'' = Some b \<longrightarrow>
      emitted (effects_since st (snd (handleRequest parse request st))) =
        [BTN_PRESS m b (if a = [] then ''1'' else a)]) \<and>
   (url request = Some u \<and> u \<noteq> [] \<and> parse u (base_of (host request)) = Some p \<and>
    (searchParams_get p ''mac'' = None \<or> searchParams_get p ''action'' = None \<or>
     searchParams_get p ''button'' = None) \<longrightarrow>
      emitted (effects_since st (snd (handleRequest parse request st))) = []) \<and>
   (url request = None \<or> url request = Some [] \<or>
    (url request = Some u \<and> parse u (base_of (host request)) = None) \<longrightarrow>
      emitted (effects_since st (snd (handleRequest parse request st))) = [])"
  by (auto simp: handleRequest_defs)

theorem callback_parameter_completeness_witness:
  "url full_request = Some ''/?mac=AABBCCDDEEFF&action=&button=2'' \<and>
   emitted (effects_since new_platform (snd (handleRequest example_parse full_request new_platform))) =
     [BTN_PRESS ''AABBCCDDEEFF'' ''2'' ''1''] \<and>
   url partial_request = Some ''/?mac=AABBCCDDEEFF&button=2'' \<and>
   emitted (effects_since new_platform (snd (handleRequest example_parse partial_request new_platform))) =
     [] \<and>
   url empty_request = None \<and>
   emitted (effects_since new_platform (snd (handleRequest example_parse empty_request new_platform))) =
     []"
proof -
  have u1: "url full_request = Some ''/?mac=AABBCCDDEEFF&action=&button=2''"
    by (simp add: full_request_def)
  have h1: "url full_request = Some ''/?mac=AABBCCDDEEFF&action=&button=2'' \<and>
    ''/?mac=AABBCCDDEEFF&action=&button=2'' \<noteq> [] \<and>
    example_parse ''/?mac=AABBCCDDEEFF&action=&button=2'' (base_of (host full_request)) =
      Some [(''mac'', ''AABBCCDDEEFF''), (''action'', []), (''button'', ''2'')] \<and>
    searchParams_get [(''mac'', ''AABBCCDDEEFF''), (''action'', []), (''button'', ''2'')] ''mac'' =
      Some ''AABBCCDDEEFF'' \<and>
    searchParams_get [(''mac'', ''AABBCCDDEEFF''), (''action'', []), (''button'', ''2'')] ''action'' =
      Some [] \<and>
    searchParams_get [(''mac'', ''AABBCCDDEEFF''), (''action'', []), (''button'', ''2'')] ''button'' =
      Some ''2''"
    by (simp add: full_request_def example_parse_def searchParams_get_def)
  note t1 = callback_parameter_completeness [where parse = example_parse
      and request = full_request and u = "''/?mac=AABBCCDDEEFF&action=&button=2''"
      and p = "[(''mac'', ''AABBCCDDEEFF''), (''action'', []), (''button'', ''2'')]"
      and m = "''AABBCCDDEEFF''" and a = "[]" and b = "''2''" and st = new_platform]
  from t1 [THEN conjunct1, THEN mp, OF h1]
  have e1: "emitted (effects_since new_platform
      (snd (handleRequest example_parse full_request new_platform))) =
      [BTN_PRESS ''AABBCCDDEEFF'' ''2'' ''1'']" by simp
  have u2: "url partial_request = Some ''/?mac=AABBCCDDEEFF&button=2''"
    by (simp add: partial_request_def)
  have h2: "url partial_request = Some ''/?mac=AABBCCDDEEFF&button=2'' \<and>
    ''/?mac=AABBCCDDEEFF&button=2'' \<noteq> [] \<and>
    example_parse ''/?mac=AABBCCDDEEFF&button=2'' (base_of (host partial_request)) =
      Some [(''mac'', ''AABBCCDDEEFF''), (''button'', ''2'')] \<and>
    (searchParams_get [(''mac'', ''AABBCCDDEEFF''), (''button'', ''2'')] ''mac'' = None \<or>
     searchParams_get [(''mac'', ''AABBCCDDEEFF''), (''button'', ''2'')] ''action'' = None \<or>
     searchParams_get [(''mac'', ''AABBCCDDEEFF''), (''button'', ''2'')] ''button'' = None)"
    by (simp add: partial_request_def example_parse_def searchParams_get_def)
  note t2 = callback_parameter_completeness [where parse = example_parse
      and request = partial_request and u = "''/?mac=AABBCCDDEEFF&button=2''"
      and p = "[(''mac'', ''AABBCCDDEEFF''), (''button'', ''2'')]" and st = new_platform]
  note e2 = t2 [THEN conjunct2, THEN conjunct1, THEN mp, OF h2]
  have u3: "url empty_request = None" by (simp add: empty_request_def)
  note t3 = callback_parameter_completeness [where parse = example_parse
      and request = empty_request and st = new_platform]
  note e3 = t3 [THEN conjunct2, THEN conjunct2, THEN mp, OF disjI1, OF u3]
  show ?thesis by (intro conjI u1 e1 u2 e2 u3 e3)
qed

text \<open>
  Claim C10. The callback server calls \<open>emit\<close> with the arguments in the order MAC,
  button, action. A listener with the declared signature \<open>(mac, action, button)\<close> is
  bound by position: its parameter \<open>action\<close> receives the button identifier and its
  parameter \<open>button\<close> receives the action code.
\<close>

theorem button_event_argument_order:
  assumes "url request = Some u" "u \<noteq> []" "parse u (base_of (host request)) = Some p"
    and "searchParams_get p ''mac'' = Some m" "searchParams_get p ''action'' = Some a"
    and "searchParams_get p ''button'' = Some b"
  shows "emitted (effects_since st (snd (handleRequest parse request st))) =
           [BTN_PRESS m b (or_else (Some a) ''1'')] \<and>
         map declared_listener (emitted (effects_since st (snd (handleRequest parse request st)))) =
           [Some \<lparr>listener_mac = m, listener_action = b,
                  listener_button = or_else (Some a) ''1''\<rparr>]"
  using assms by (auto simp: handleRequest_defs)

theorem button_event_argument_order_witness:
  "url full_request = Some ''/?mac=AABBCCDDEEFF&action=&button=2'' \<and>
   map declared_listener (emitted (effects_since new_platform
      (snd (handleRequest example_parse full_request new_platform)))) =
     [Some \<lparr>listener_mac = ''AABBCCDDEEFF'', listener_action = ''2'', listener_button = ''1''\<rparr>]"
proof -
  have u1: "url full_request = Some ''/?mac=AABBCCDDEEFF&action=&button=2''"
    by (simp add: full_request_def)
  have n1: "''/?mac=AABBCCDDEEFF&action=&button=2'' \<noteq> []" by simp
  have p1: "example_parse ''/?mac=AABBCCDDEEFF&action=&button=2'' (base_of (host full_request)) =
      Some [(''mac'', ''AABBCCDDEEFF''), (''action'', []), (''button'', ''2'')]"
    by (simp add: example_parse_def)
  have g1: "searchParams_get [(''mac'', ''AABBCCDDEEFF''), (''action'', []), (''button'', ''2'')] ''mac'' =
      Some ''AABBCCDDEEFF''"
    by (simp add: searchParams_get_def)
  have g2: "searchParams_get [(''mac'', ''AABBCCDDEEFF''), (''action'', []), (''button'', ''2'')] ''action'' =
      Some []"
    by (simp add: searchParams_get_def)
  have g3: "searchParams_get [(''mac'', ''AABBCCDDEEFF''), (''action'', []), (''button'', ''2'')] ''button'' =
      Some ''2''"
    by (simp add: searchParams_get_def)
  note t = button_event_argument_order [where parse = example_parse
      and request = full_request and st = new_platform, OF u1 n1 p1 g1 g2 g3]
  from t [THEN conjunct2]
  have e: "map declared_listener (emitted (effects_since new_platform
      (snd (handleRequest example_parse full_request new_platform)))) =
     [Some \<lparr>listener_mac = ''AABBCCDDEEFF'', listener_action = ''2'', listener_button = ''1''\<rparr>]"
    by (simp add: or_else_def)
  show ?thesis by (intro conjI u1 e)
qed

section \<open>Properties of the resilience policies\<close>

lemma invoked_while_closed_snoc:
  "invoked_while_closed (log @ [a]) =
     invoked_while_closed log + (if circuit_before a = Closed \<and> op_invoked a then 1 else 0)"
  by (induction log) simp_all

lemma gated_attempt_closed:
  assumes "\<forall>w. isl (fst (op w))" and "circuit b = Closed"
  shows "\<exists>e w'. gated_attempt op now (b, w, log) =
           (Inl e,
            (if 5 \<le> failures b + 1 then \<lparr>circuit = Open now, failures = failures b + 1\<rparr>
             else b\<lparr>failures := failures b + 1\<rparr>),
            w', log @ [\<lparr>attempt_at = now, circuit_before = Closed, op_invoked = True\<rparr>])"
proof -
  from assms(1) have "isl (fst (op w))" by blast
  then obtain e w' where "op w = (Inl e, w')"
    by (cases "op w") (auto simp: isl_def)
  with assms(2) show ?thesis
    by (simp add: gated_attempt_def circuitBreaker_execute_def handleAll_def ConsecutiveBreaker_def)
qed

lemma gated_attempt_open:
  assumes "\<forall>w. isl (fst (op w))" and "circuit b = Open t"
  shows "\<exists>e b' w' t' i. gated_attempt op now (b, w, log) =
           (Inl e, b', w', log @ [\<lparr>attempt_at = now, circuit_before = Open t, op_invoked = i\<rparr>]) \<and>
           circuit b' = Open t'"
proof -
  from assms(1) have "isl (fst (op w))" by blast
  then obtain e w' where "op w = (Inl e, w')"
    by (cases "op w") (auto simp: isl_def)
  with assms(2) show ?thesis
    by (cases "now - t < halfOpenAfter")
       (auto simp: gated_attempt_def circuitBreaker_execute_def handleAll_def)
qed

lemma retry_loop_handleAll_Suc:
  "att (clock k) s = (Inl e, s') \<Longrightarrow>
     retry_loop handleAll clock att k (Suc n) s = retry_loop handleAll clock att (Suc k) n s'"
  by (simp add: handleAll_def)

lemma retry_loop_numeral:
  "retry_loop handles clock att k (numeral v) s =
     (case att (clock k) s of
        (Inr x, s') \<Rightarrow> (Inr x, s')
      | (Inl e, s') \<Rightarrow>
          if handles e then retry_loop handles clock att (Suc k) (pred_numeral v) s'
          else (Inl e, s'))"
  by (simp add: numeral_eq_Suc)

text \<open>
  For an operation that always fails, the number of attempts that meet a closed breaker
  and invoke the operation: the breaker with \<open>f\<close> failures lets \<open>5 - f\<close> more through
  (one at least), if the retries last that long.
\<close>

lemma retry_loop_failing:
  assumes "\<forall>w. isl (fst (op w))"
  shows "invoked_while_closed
           (snd (snd (snd (retry_loop handleAll clock (gated_attempt op) k n (b, w, log))))) =
         invoked_while_closed log +
           (case circuit b of Closed \<Rightarrow> min (Suc n) (max 1 (5 - failures b)) | Open t \<Rightarrow> 0)"
proof (induction n arbitrary: k b w log)
  case 0
  show ?case
  proof (cases "circuit b")
    case Closed
    from gated_attempt_closed [OF assms Closed, of "clock k" w log]
    show ?thesis using Closed
      by (auto simp: invoked_while_closed_snoc)
  next
    case (Open t)
    from gated_attempt_open [OF assms Open, of "clock k" w log]
    show ?thesis using Open
      by (auto simp: invoked_while_closed_snoc)
  qed
next
  case (Suc n)
  show ?case
  proof (cases "circuit b")
    case Closed
    from gated_attempt_closed [OF assms Closed, of "clock k" w log]
    obtain e w' where step: "gated_attempt op (clock k) (b, w, log) =
           (Inl e,
            (if 5 \<le> failures b + 1 then \<lparr>circuit = Open (clock k), failures = failures b + 1\<rparr>
             else b\<lparr>failures := failures b + 1\<rparr>),
            w', log @ [\<lparr>attempt_at = clock k, circuit_before = Closed, op_invoked = True\<rparr>])"
      by blast
    show ?thesis
      using Closed
      by (auto simp del: retry_loop.simps
          simp add: retry_loop_handleAll_Suc
            [where att = "gated_attempt op" and clock = clock and k = k, OF step]
            Suc.IH invoked_while_closed_snoc)
  next
    case (Open t)
    from gated_attempt_open [OF assms Open, of "clock k" w log]
    obtain e b' w' t' i where step: "gated_attempt op (clock k) (b, w, log) =
           (Inl e, b', w', log @ [\<lparr>attempt_at = clock k, circuit_before = Open t, op_invoked = i\<rparr>])"
      and b': "circuit b' = Open t'"
      by blast
    show ?thesis
      using Open b'
      by (simp del: retry_loop.simps
          add: retry_loop_handleAll_Suc
            [where att = "gated_attempt op" and clock = clock and k = k, OF step]
            Suc.IH invoked_while_closed_snoc)
  qed
qed

text \<open>For an operation that always fails, the breaker is open once the retries have lasted.\<close>

lemma retry_loop_opens:
  assumes "\<forall>w. isl (fst (op w))"
    and "circuit b = Closed \<longrightarrow> 5 \<le> failures b + Suc n"
  shows "\<exists>t. circuit (fst (snd (retry_loop handleAll clock (gated_attempt op) k n (b, w, log)))) =
           Open t"
  using assms(2)
proof (induction n arbitrary: k b w log)
  case 0
  show ?case
  proof (cases "circuit b")
    case Closed
    from gated_attempt_closed [OF assms(1) Closed, of "clock k" w log]
    show ?thesis using Closed "0.prems" by auto
  next
    case (Open t)
    from gated_attempt_open [OF assms(1) Open, of "clock k" w log]
    show ?thesis by auto
  qed
next
  case (Suc n)
  show ?case
  proof (cases "circuit b")
    case Closed
    from gated_attempt_closed [OF assms(1) Closed, of "clock k" w log]
    obtain e w' where step: "gated_attempt op (clock k) (b, w, log) =
           (Inl e,
            (if 5 \<le> failures b + 1 then \<lparr>circuit = Open (clock k), failures = failures b + 1\<rparr>
             else b\<lparr>failures := failures b + 1\<rparr>),
            w', log @ [\<lparr>attempt_at = clock k, circuit_before = Closed, op_invoked = True\<rparr>])"
      by blast
    have "circuit (if 5 \<le> failures b + 1 then \<lparr>circuit = Open (clock k), failures = failures b + 1\<rparr>
             else b\<lparr>failures := failures b + 1\<rparr>) = Closed \<longrightarrow>
          5 \<le> failures (if 5 \<le> failures b + 1
             then \<lparr>circuit = Open (clock k), failures = failures b + 1\<rparr>
             else b\<lparr>failures := failures b + 1\<rparr>) + Suc n"
      using Closed Suc.prems by auto
    from Suc.IH [OF this] show ?thesis
      by (simp del: retry_loop.simps
          add: retry_loop_handleAll_Suc
            [where att = "gated_attempt op" and clock = clock and k = k, OF step])
  next
    case (Open t)
    from gated_attempt_open [OF assms(1) Open, of "clock k" w log]
    obtain e b' w' t' i where step: "gated_attempt op (clock k) (b, w, log) =
           (Inl e, b', w', log @ [\<lparr>attempt_at = clock k, circuit_before = Open t, op_invoked = i\<rparr>])"
      and b': "circuit b' = Open t'"
      by blast
    from b' have "circuit b' = Closed \<longrightarrow> 5 \<le> failures b' + Suc n" by simp
    from Suc.IH [OF this] show ?thesis
      by (simp del: retry_loop.simps
          add: retry_loop_handleAll_Suc
            [where att = "gated_attempt op" and clock = clock and k = k, OF step])
  qed
qed

lemma run_failing:
  assumes "\<forall>w. isl (fst (op w))"
  shows "invoked_while_closed (attempts_of (retryWithBreaker_execute clock op (b, w))) =
           (case circuit b of Closed \<Rightarrow> min 21 (max 1 (5 - failures b)) | Open t \<Rightarrow> 0)"
  using retry_loop_failing [OF assms, of clock 0 20 b w "[]"]
  by (simp add: retryWithBreaker_execute_def attempts_of_def maxAttempts_def)

lemma run_opens:
  assumes "\<forall>w. isl (fst (op w))"
  shows "\<exists>t. circuit (fst (snd (retryWithBreaker_execute clock op (b, w)))) = Open t"
  using retry_loop_opens [OF assms, of b 20 clock 0 w "[]"]
  by (simp add: retryWithBreaker_execute_def maxAttempts_def)

lemma open_rejects:
  assumes "circuit b = Open t" "now - t < 10 * 1000"
  shows "circuitBreaker_execute handleAll halfOpenAfter ConsecutiveBreaker now op (b, w) =
           (Inl BrokenCircuitError, False, b, w)"
  using assms by (simp add: circuitBreaker_execute_def halfOpenAfter_def)

lemmas policy_defs =
  retryWithBreaker_execute_def maxAttempts_def retry_loop_numeral gated_attempt_def
  circuitBreaker_execute_def failing_def new_breaker_def handleAll_def halfOpenAfter_def
  ConsecutiveBreaker_def every_second_def attempts_of_def

text \<open>
  Claim C9. Under the composed policy, an operation that fails on every invocation is
  invoked at most 5 times by attempts that meet a closed breaker, whatever the breaker's
  state at the start and whatever the times of the attempts, and the breaker is open
  when the run ends. A call that meets the breaker open less than 10 seconds after it
  opened fails at once with the breaker's own error: the operation is not invoked, and
  the breaker and the world stay as they were.
\<close>

theorem breaker_opens_after_five_failures:
  "((\<forall>w. isl (fst (op w))) \<longrightarrow>
      invoked_while_closed (attempts_of (retryWithBreaker_execute clock op (b, w))) \<le> 5 \<and>
      (\<exists>t. circuit (fst (snd (retryWithBreaker_execute clock op (b, w)))) = Open t)) \<and>
   (circuit b' = Open t' \<and> now - t' < 10 * 1000 \<longrightarrow>
      circuitBreaker_execute handleAll halfOpenAfter ConsecutiveBreaker now op' (b', w') =
        (Inl BrokenCircuitError, False, b', w'))"
proof -
  have "invoked_while_closed (attempts_of (retryWithBreaker_execute clock op (b, w))) \<le> 5"
    if "\<forall>w. isl (fst (op w))"
    using run_failing [OF that, of clock b w]
    by (simp split: circuit.splits)
  moreover have "\<exists>t. circuit (fst (snd (retryWithBreaker_execute clock op (b, w)))) = Open t"
    if "\<forall>w. isl (fst (op w))"
    using that by (rule run_opens)
  moreover have "circuitBreaker_execute handleAll halfOpenAfter ConsecutiveBreaker now op' (b', w') =
        (Inl BrokenCircuitError, False, b', w')" if "circuit b' = Open t'" "now - t' < 10 * 1000"
    using that by (rule open_rejects)
  ultimately show ?thesis by blast
qed

theorem breaker_opens_after_five_failures_witness:
  "invoked_while_closed (attempts_of
      (retryWithBreaker_execute every_second (failing DeviceNotReachableError) (new_breaker, 0))) \<le> 5 \<and>
   fst (snd (snd (retryWithBreaker_execute every_second (failing DeviceNotReachableError)
      (new_breaker, 0)))) = 6 \<and>
   circuit \<lparr>circuit = Open 4000, failures = 5\<rparr> = Open 4000 \<and>
   circuitBreaker_execute handleAll halfOpenAfter ConsecutiveBreaker 5000
      (failing DeviceNotReachableError) (\<lparr>circuit = Open 4000, failures = 5\<rparr>, 5) =
     (Inl BrokenCircuitError, False, \<lparr>circuit = Open 4000, failures = 5\<rparr>, 5)"
proof -
  have f: "\<forall>w. isl (fst (failing DeviceNotReachableError w))" by (simp add: failing_def)
  note t = breaker_opens_after_five_failures [where op = "failing DeviceNotReachableError"
      and clock = every_second and b = new_breaker and w = 0
      and b' = "\<lparr>circuit = Open 4000, failures = 5\<rparr>" and t' = 4000 and now = 5000
      and op' = "failing DeviceNotReachableError" and w' = 5]
  note a = t [THEN conjunct1, THEN mp, OF f, THEN conjunct1]
  have c: "circuit \<lparr>circuit = Open 4000, failures = 5\<rparr> = Open 4000" by simp
  have h: "circuit \<lparr>circuit = Open 4000, failures = 5\<rparr> = Open 4000 \<and> (5000::nat) - 4000 < 10 * 1000"
    by simp
  note r = t [THEN conjunct2, THEN mp, OF h]
  have n: "fst (snd (snd (retryWithBreaker_execute every_second (failing DeviceNotReachableError)
      (new_breaker, 0)))) = 6"
    by (simp add: policy_defs)
  show ?thesis by (intro conjI a n c r)
qed

text \<open>
  Claim C3, as amended. Both policies are built with \<open>Policy.handleAll()\<close>, so no error
  kind is left out of the retries: an operation that fails on every invocation with
  \<open>InvalidTypeError\<close>, or with any other error, is retried by the composed policy, and
  the failure is not surfaced at once. Starting from a closed breaker with no failure
  recorded, the operation is invoked five times in a row, until the breaker opens.
\<close>

theorem every_error_is_retried:
  assumes "\<forall>w. fst (op w) = Inl e"
  shows "invoked_while_closed
           (attempts_of (retryWithBreaker_execute clock op (new_breaker, w))) = 5"
proof -
  from assms have "\<forall>w. isl (fst (op w))" by simp
  from run_failing [OF this, of clock new_breaker w] show ?thesis
    by (simp add: new_breaker_def)
qed

theorem every_error_is_retried_witness:
  "(\<forall>w. fst (failing InvalidTypeError w) = Inl InvalidTypeError) \<and>
   invoked_while_closed (attempts_of
     (retryWithBreaker_execute every_second (failing InvalidTypeError) (new_breaker, 0))) = 5"
proof -
  have f: "\<forall>w. fst (failing InvalidTypeError w) = Inl InvalidTypeError" by (simp add: failing_def)
  note t = every_error_is_retried [OF f, where clock = every_second and w = 0]
  show ?thesis by (intro conjI f t)
qed

text \<open>
  The claim as it was stated fails: with one attempt per second, the operation that
  fails with \<open>InvalidTypeError\<close> is invoked six times by one call of the composed
  policy (five times until the breaker opens, once more when it half-opens), and the
  error the caller receives at the end is the breaker's.
\<close>

theorem InvalidTypeError_is_retried:
  "fst (retryWithBreaker_execute every_second (failing InvalidTypeError) (new_breaker, 0)) =
     Inl BrokenCircuitError \<and>
   fst (snd (snd (retryWithBreaker_execute every_second (failing InvalidTypeError)
     (new_breaker, 0)))) = 6"
  by (simp add: policy_defs)

end
